theory Spec2Isabelle
  imports Complex_Main "HOL-Library.Word"
begin

section \<open>Errors and configuration\<close>

text \<open>
  The exceptions of the Python sources are values of one datatype. A function that can
  raise returns a sum (\<open>Inl\<close> the exception); where the object it mutates outlives the
  exception, the mutated object is returned beside the sum.
\<close>

datatype error =
    ZeroDivisionError
  | KeyError
  | IndexError
  | TypeError
  | ValueError
  | OSError

text \<open>
  All of these are subclasses of Python's \<open>Exception\<close>, the class that the \<open>except\<close>
  clauses of the sources name.
\<close>

text \<open>The entries of \<open>SAFETY_LIMITS\<close>, \<open>SYSTEM_CONFIG\<close> and \<open>RELEASE_CONFIG\<close> of config.py.\<close>

definition servo_min_angle :: int where "servo_min_angle = 30"
definition servo_max_angle :: int where "servo_max_angle = 150"
definition servo_neutral_angle :: int where "servo_neutral_angle = 90"
definition pwm_min_duty :: int where "pwm_min_duty = 40"
definition pwm_max_duty :: int where "pwm_max_duty = 115"
definition rc_min_pulse :: int where "rc_min_pulse = 800"
definition rc_max_pulse :: int where "rc_max_pulse = 2200"
definition rc_neutral_pulse :: int where "rc_neutral_pulse = 1500"
definition max_pid_integral :: int where "max_pid_integral = 10"
definition sensor_timeout :: int where "sensor_timeout = 10000"
definition rc_timeout :: int where "rc_timeout = 3000"

definition rc_read_interval :: int where "rc_read_interval = 50"
definition led_blink_fast :: int where "led_blink_fast = 200"
definition led_blink_slow :: int where "led_blink_slow = 1000"

definition locked_position :: int where "locked_position = 45"
definition release_position :: int where "release_position = 135"
definition rc_threshold :: int where "rc_threshold = 1700"
definition safety_delay :: int where "safety_delay = 2000"
definition auto_lock_time :: int where "auto_lock_time = 5000"

text \<open>
  Modelled from the spec: the table \<open>FLIGHT_MODES\<close>, which pid_controller.py and
  main_modular.py import from config.py and which config.py documents but does not define.
  It is a dictionary from mode index to an entry with the keys 'name', 'gains' (Kp, Ki, Kd
  for roll, pitch, yaw: nine numbers), 'limits' (three), 'target' (roll and pitch
  setpoints) and 'flaps'. Every function below takes the table as its first argument.
  Floating-point numbers are modelled by the reals.
\<close>

record mode_config =
  name :: string
  gains :: "real list"
  limits :: "real list"
  target :: "real list"
  flaps :: int

type_synonym flight_modes = "(int \<times> mode_config) list"

section \<open>pid\_controller.py\<close>

record pid_controller =
  integral :: "real list"
  prev_error :: "real list"
  flight_mode :: int

text \<open>\<open>PIDController.__init__\<close>\<close>

definition PIDController_init :: pid_controller where
  "PIDController_init = \<lparr>integral = [0, 0, 0], prev_error = [0, 0, 0], flight_mode = 0\<rparr>"

text \<open>\<open>PIDController.reset\<close>\<close>

definition reset :: "pid_controller \<Rightarrow> pid_controller" where
  "reset s = s\<lparr>integral := [0, 0, 0], prev_error := [0, 0, 0]\<rparr>"

text \<open>\<open>PIDController.set_flight_mode\<close>: the new controller and the returned flag.\<close>

definition set_flight_mode :: "flight_modes \<Rightarrow> pid_controller \<Rightarrow> int \<Rightarrow> pid_controller \<times> bool" where
  "set_flight_mode FLIGHT_MODES s mode_index =
     (if 0 \<le> mode_index \<and> mode_index < int (length FLIGHT_MODES)
      then (if flight_mode s \<noteq> mode_index
            then (reset (s\<lparr>flight_mode := mode_index\<rparr>), True)
            else (s, True))
      else (s, False))"

text \<open>\<open>PIDController._limit_output\<close>\<close>

definition limit_output :: "real \<Rightarrow> real \<Rightarrow> real" where
  "limit_output output limit = max (- limit) (min limit output)"

text \<open>
  One pass of the loop \<open>for i in range(3)\<close> of \<open>calculate\<close>: the accumulation, then the
  clamp to \<open>\<plusminus>max_pid_integral\<close>, both written back to \<open>self.integral[i]\<close>.
\<close>

definition integrate_axis :: "real list \<Rightarrow> real \<Rightarrow> real list \<Rightarrow> nat \<Rightarrow> real list" where
  "integrate_axis errors dt xs i =
     (let xs1 = xs[i := xs ! i + errors ! i * dt]
      in xs1[i := max (- real_of_int max_pid_integral)
                      (min (real_of_int max_pid_integral) (xs1 ! i))])"

text \<open>
  The loop over the indices still to visit: an index beyond the end of \<open>self.integral\<close>
  raises IndexError and leaves the list as the earlier passes have written it.
\<close>

fun integrate_loop :: "real list \<Rightarrow> real \<Rightarrow> nat list \<Rightarrow> real list \<Rightarrow> error option \<times> real list" where
  "integrate_loop errors dt [] xs = (None, xs)"
| "integrate_loop errors dt (i # rest) xs =
     (if i < length xs then integrate_loop errors dt rest (integrate_axis errors dt xs i)
      else (Some IndexError, xs))"

definition integrate :: "real list \<Rightarrow> real \<Rightarrow> real list \<Rightarrow> error option \<times> real list" where
  "integrate errors dt xs = integrate_loop errors dt [0, 1, 2] xs"

text \<open>
  \<open>PIDController.calculate\<close>. The result pairs the controller as the call leaves it with
  the outputs or the exception. A read beyond the end of a tuple or list raises
  IndexError; the division by \<open>dt\<close> raises ZeroDivisionError when \<open>dt\<close> is zero, in the
  first derivative, after the integrals have been written and before \<open>prev_error\<close> is.
\<close>

definition calculate ::
  "flight_modes \<Rightarrow> pid_controller \<Rightarrow> real \<Rightarrow> real \<Rightarrow> real \<Rightarrow> real
     \<Rightarrow> pid_controller \<times> (error + real \<times> real \<times> real)" where
  "calculate FLIGHT_MODES s roll pitch yaw_rate dt =
     (case map_of FLIGHT_MODES (flight_mode s) of
        None \<Rightarrow> (s, Inl KeyError)
      | Some mode \<Rightarrow>
          if length (target mode) < 2 then (s, Inl IndexError)
          else
            let errors = [target mode ! 0 - roll, target mode ! 1 - pitch, - yaw_rate]
            in (case integrate errors dt (integral s) of
                  (Some e, xs) \<Rightarrow> (s\<lparr>integral := xs\<rparr>, Inl e)
                | (None, xs) \<Rightarrow>
                    let s1 = s\<lparr>integral := xs\<rparr>
                    in if prev_error s1 = [] then (s1, Inl IndexError)
                       else if dt = 0 then (s1, Inl ZeroDivisionError)
                       else if length (prev_error s1) < 3 then (s1, Inl IndexError)
                       else
                         let derivatives =
                               map (\<lambda>i. (errors ! i - prev_error s1 ! i) / dt) [0, 1, 2];
                             s2 = s1\<lparr>prev_error := errors\<rparr>
                         in if length (gains mode) < 9 \<or> length (limits mode) < 3
                            then (s2, Inl IndexError)
                            else
                              let g = gains mode;
                                  roll_out = g ! 0 * errors ! 0 + g ! 1 * integral s2 ! 0
                                               + g ! 2 * derivatives ! 0;
                                  pitch_out = g ! 3 * errors ! 1 + g ! 4 * integral s2 ! 1
                                               + g ! 5 * derivatives ! 1;
                                  yaw_out = g ! 6 * errors ! 2 + g ! 7 * integral s2 ! 2
                                               + g ! 8 * derivatives ! 2
                              in (s2, Inr (limit_output roll_out (limits mode ! 0),
                                           limit_output pitch_out (limits mode ! 1),
                                           limit_output yaw_out (limits mode ! 2)))))"

text \<open>Python's \<open>int\<close> on a float: truncation toward zero.\<close>

definition py_int :: "real \<Rightarrow> int" where
  "py_int x = (if 0 \<le> x then \<lfloor>x\<rfloor> else \<lceil>x\<rceil>)"

text \<open>
  The body of the loop over \<open>commands\<close> in \<open>calculate_servo_commands\<close>:
  \<open>int(max(servo_min_angle, min(servo_max_angle, cmd)))\<close>.
\<close>

definition limit_command :: "real \<Rightarrow> int" where
  "limit_command cmd =
     py_int (max (real_of_int servo_min_angle) (min (real_of_int servo_max_angle) cmd))"

text \<open>
  \<open>PIDController.calculate_servo_commands\<close>: \<open>calculate\<close> is called without \<open>dt\<close>, that
  is with its default 0.1.
\<close>

definition calculate_servo_commands ::
  "flight_modes \<Rightarrow> pid_controller \<Rightarrow> real \<Rightarrow> real \<Rightarrow> real
     \<Rightarrow> pid_controller \<times> (error + int list)" where
  "calculate_servo_commands FLIGHT_MODES s roll pitch yaw_rate =
     (case calculate FLIGHT_MODES s roll pitch yaw_rate (1 / 10) of
        (s', Inl e) \<Rightarrow> (s', Inl e)
      | (s', Inr (pid_out0, pid_out1, pid_out2)) \<Rightarrow>
          (case map_of FLIGHT_MODES (flight_mode s') of
             None \<Rightarrow> (s', Inl KeyError)
           | Some mode \<Rightarrow>
               let flaps_base = real_of_int (flaps mode);
                   flaps_left = real_of_int servo_neutral_angle + flaps_base - pid_out0;
                   flaps_right = real_of_int servo_neutral_angle + flaps_base + pid_out0;
                   elevator = real_of_int servo_neutral_angle - pid_out1;
                   rudder = real_of_int servo_neutral_angle + pid_out2;
                   commands = [flaps_left, flaps_right, elevator, rudder]
               in (s', Inr (map limit_command commands))))"

text \<open>\<open>PIDController.emergency_stop\<close>\<close>

definition emergency_stop :: "pid_controller \<Rightarrow> pid_controller" where
  "emergency_stop s = reset s"

text \<open>
  The gains and limits that config.py does define, and a table with one mode built from
  them (setpoints zero, no flap bias), used as a concrete input below.
\<close>

definition STABILIZATION_GAINS :: "real list" where
  "STABILIZATION_GAINS = [2, 15 / 100, 1, 25 / 10, 18 / 100, 12 / 10, 12 / 10, 6 / 100, 5 / 10]"

definition STABILIZATION_LIMITS :: "real list" where
  "STABILIZATION_LIMITS = [25, 30, 18]"

definition stabilization_modes :: flight_modes where
  "stabilization_modes =
     [(0, \<lparr>name = ''ESTABILIZACAO'', gains = STABILIZATION_GAINS,
           limits = STABILIZATION_LIMITS, target = [0, 0], flaps = 0\<rparr>)]"

section \<open>The hardware and the clock\<close>

text \<open>
  The program reads the clock, polls pins and talks to the I2C bus. What it observes is
  fixed by a \<open>world\<close>: the answer to the program's \<open>k\<close>-th interaction with the hardware
  (a clock read, a sleep, a pin read, a bus transfer). Every function that touches the
  hardware takes the number of interactions made so far and returns the number after it.
  A pin read or a bus transfer can raise.
\<close>

record world =
  ticks_ms_at :: "nat \<Rightarrow> int"
  ticks_us_at :: "nat \<Rightarrow> int"
  rc_pin_at :: "nat \<Rightarrow> error + int"
  i2c_at :: "nat \<Rightarrow> error + 8 word list"

text \<open>
  MicroPython's \<open>time.ticks_diff\<close>: the signed difference of two tick values, which wrap
  at \<open>2 ^ 30\<close>.
\<close>

definition ticks_diff :: "int \<Rightarrow> int \<Rightarrow> int" where
  "ticks_diff ticks1 ticks2 = (ticks1 - ticks2 + 2 ^ 29) mod 2 ^ 30 - 2 ^ 29"

section \<open>hardware.py\<close>

subsection \<open>LEDManager\<close>

text \<open>
  \<open>available_leds\<close> maps a name to the level last written to that LED; a name whose LED
  failed to initialise (stored as None in the source) has no entry.
\<close>

record led_manager =
  available_leds :: "string \<rightharpoonup> int"



text \<open>
  \<open>set_release_pattern\<close>. The key of the fourth pattern is spelled 'RELEASEED' in the
  source, so the state 'RELEASED' takes the default of \<open>patterns.get\<close>.
\<close>

definition set_release_pattern :: "world \<Rightarrow> led_manager \<Rightarrow> nat \<Rightarrow> string \<Rightarrow> led_manager \<times> nat" where
  "set_release_pattern w leds n release_state =
     (case available_leds leds ''release'' of
        None \<Rightarrow> (leds, n)
      | Some _ \<Rightarrow>
          let current_time = ticks_ms_at w n;
              patterns = [(''LOCKED'', 1),
                          (''ARMED'', (current_time div led_blink_fast) mod 2),
                          (''RELEASING'', 0),
                          (''RELEASEED'', (current_time div led_blink_slow) mod 2)];
              level = (case map_of patterns release_state of None \<Rightarrow> 0 | Some v \<Rightarrow> v)
          in (leds\<lparr>available_leds := (available_leds leds)(''release'' \<mapsto> level)\<rparr>, n + 1))"

text \<open>
  The loop of \<open>alert_sequence\<close>: on, sleep, off, sleep, \<open>count\<close> times. Each sleep is
  one interaction with the clock.
\<close>

fun alert_blinks :: "nat \<Rightarrow> led_manager \<Rightarrow> nat \<Rightarrow> led_manager \<times> nat" where
  "alert_blinks 0 leds n = (leds, n)"
| "alert_blinks (Suc k) leds n =
     alert_blinks k
       (leds\<lparr>available_leds := ((available_leds leds)(''alert'' \<mapsto> 1))(''alert'' \<mapsto> 0)\<rparr>)
       (n + 2)"

definition alert_sequence :: "led_manager \<Rightarrow> nat \<Rightarrow> nat \<Rightarrow> led_manager \<times> nat" where
  "alert_sequence leds n count =
     (case available_leds leds ''alert'' of
        None \<Rightarrow> (leds, n)
      | Some _ \<Rightarrow> alert_blinks count leds n)"

subsection \<open>ServoManager\<close>






subsection \<open>RCReceiver\<close>

text \<open>\<open>rc_pin\<close> is False when the pin could not be created (None in the source).\<close>

record rc_receiver =
  rc_pin :: bool
  last_read_time :: int

text \<open>
  The first loop of \<open>read_channel\<close>: poll until the pin leaves 0. Each pass reads the
  pin at interaction \<open>n\<close> and sleeps at \<open>n + 1\<close>.
\<close>

datatype wait_result = Edge | Timed_out | Raised error

function wait_high :: "world \<Rightarrow> nat \<Rightarrow> int \<Rightarrow> wait_result \<times> nat" where
  "wait_high w n timeout =
     (case rc_pin_at w n of
        Inl e \<Rightarrow> (Raised e, n + 1)
      | Inr v \<Rightarrow>
          if v = 0
          then (if timeout > sensor_timeout then (Timed_out, n + 1)
                else wait_high w (n + 2) (timeout + 1))
          else (Edge, n + 1))"
  by pat_completeness auto
termination
  by (relation "measure (\<lambda>(w, n, timeout). nat (sensor_timeout + 1 - timeout))") auto

text \<open>
  The second loop: poll until the pin leaves 1, or break after \<open>rc_timeout\<close> passes.
  The result is the exception raised by a pin read, if any.
\<close>

function wait_low :: "world \<Rightarrow> nat \<Rightarrow> int \<Rightarrow> error option \<times> nat" where
  "wait_low w n timeout =
     (case rc_pin_at w n of
        Inl e \<Rightarrow> (Some e, n + 1)
      | Inr v \<Rightarrow>
          if v = 1
          then (if timeout > rc_timeout then (None, n + 1)
                else wait_low w (n + 2) (timeout + 1))
          else (None, n + 1))"
  by pat_completeness auto
termination
  by (relation "measure (\<lambda>(w, n, timeout). nat (rc_timeout + 1 - timeout))") auto

text \<open>
  The body of the \<open>try\<close> of \<open>read_channel\<close> up to the computation of \<open>pulse_width\<close>:
  no rising edge within the timeout, a measured width, or an exception.
\<close>

datatype pulse_reading = No_edge | Measured int | Failed error

definition measure_pulse :: "world \<Rightarrow> nat \<Rightarrow> pulse_reading \<times> nat" where
  "measure_pulse w n =
     (case wait_high w n 0 of
        (Raised e, n1) \<Rightarrow> (Failed e, n1)
      | (Timed_out, n1) \<Rightarrow> (No_edge, n1)
      | (Edge, n1) \<Rightarrow>
          let start_time = ticks_us_at w n1
          in (case wait_low w (n1 + 1) 0 of
                (Some e, n2) \<Rightarrow> (Failed e, n2)
              | (None, n2) \<Rightarrow> (Measured (ticks_diff (ticks_us_at w n2) start_time), n2 + 1)))"

text \<open>
  \<open>RCReceiver.read_channel\<close>: the value returned, the receiver and the interaction count
  after the call. The receiver has no attribute that holds a measured width.
\<close>

definition read_channel :: "world \<Rightarrow> rc_receiver \<Rightarrow> nat \<Rightarrow> int \<times> rc_receiver \<times> nat" where
  "read_channel w rx n =
     (if \<not> rc_pin rx then (rc_neutral_pulse, rx, n)
      else if ticks_diff (ticks_ms_at w n) (last_read_time rx) < rc_read_interval
      then (rc_neutral_pulse, rx, n + 1)
      else
        let rx' = rx\<lparr>last_read_time := ticks_ms_at w (n + 1)\<rparr>
        in (case measure_pulse w (n + 2) of
              (No_edge, n') \<Rightarrow> (rc_neutral_pulse, rx', n')
            | (Failed e, n') \<Rightarrow> (rc_neutral_pulse, rx', n')
            | (Measured pulse_width, n') \<Rightarrow>
                (if rc_min_pulse \<le> pulse_width \<and> pulse_width \<le> rc_max_pulse
                 then pulse_width else rc_neutral_pulse, rx', n')))"

section \<open>release\_system.py\<close>

text \<open>The entry 'emergency_override' of \<open>RELEASE_CONFIG\<close>.\<close>

definition emergency_override :: bool where "emergency_override = True"

text \<open>
  \<open>servo\<close> is None when there is no PWM object, and otherwise holds the duty last
  written to it. The receiver and the LED manager are objects shared with the hardware
  manager: the methods below take them as arguments and return them.
\<close>

record release_system =
  state :: string
  armed_time :: int
  release_time :: int
  servo :: "int option"

text \<open>\<open>ReleaseSystem._angle_to_duty\<close> (no clamping of the angle here)\<close>

definition release_angle_to_duty :: "int \<Rightarrow> int" where
  "release_angle_to_duty angle = pwm_min_duty + (angle * (pwm_max_duty - pwm_min_duty)) div 180"

text \<open>\<open>ReleaseSystem._set_servo_position\<close>\<close>

definition set_servo_position :: "release_system \<Rightarrow> int \<Rightarrow> release_system" where
  "set_servo_position rs angle =
     (case servo rs of
        None \<Rightarrow> rs
      | Some _ \<Rightarrow> rs\<lparr>servo := Some (release_angle_to_duty angle)\<rparr>)"

text \<open>\<open>ReleaseSystem.__init__\<close> with \<open>_init_servo\<close>, when the PWM object can be created\<close>

definition ReleaseSystem_init :: release_system where
  "ReleaseSystem_init =
     (set_servo_position \<lparr>state = ''LOCKED'', armed_time = 0, release_time = 0, servo = Some 0\<rparr>
        locked_position)\<lparr>state := ''LOCKED''\<rparr>"

text \<open>\<open>ReleaseSystem.lock\<close>\<close>

definition lock :: "release_system \<Rightarrow> release_system" where
  "lock rs =
     (case servo rs of
        None \<Rightarrow> rs
      | Some _ \<Rightarrow> (set_servo_position rs locked_position)\<lparr>state := ''LOCKED''\<rparr>)"

text \<open>\<open>ReleaseSystem._initiate_release\<close>\<close>

definition initiate_release :: "release_system \<Rightarrow> int \<Rightarrow> release_system" where
  "initiate_release rs current_time =
     set_servo_position (rs\<lparr>state := ''RELEASING'', release_time := current_time\<rparr>) release_position"

text \<open>
  The four state handlers. \<open>_handle_locked_state\<close> and \<open>_handle_armed_state\<close> are declared
  with the parameters \<open>(self, current_time, rc_signal)\<close>, \<open>_handle_releasing_state\<close> and
  \<open>_handle_released_state\<close> with \<open>(self, current_time)\<close>.
\<close>

definition handle_locked_state :: "release_system \<Rightarrow> int \<Rightarrow> int \<Rightarrow> release_system" where
  "handle_locked_state rs current_time rc_signal =
     (if rc_signal > rc_threshold
      then rs\<lparr>state := ''ARMED'', armed_time := current_time\<rparr>
      else rs)"

definition handle_armed_state :: "release_system \<Rightarrow> int \<Rightarrow> int \<Rightarrow> release_system" where
  "handle_armed_state rs current_time rc_signal =
     (if rc_signal < rc_threshold then rs\<lparr>state := ''LOCKED''\<rparr>
      else if ticks_diff current_time (armed_time rs) \<ge> safety_delay
      then (if rc_signal > rc_threshold then initiate_release rs current_time else rs)
      else rs)"

definition handle_releasing_state :: "release_system \<Rightarrow> int \<Rightarrow> release_system" where
  "handle_releasing_state rs current_time =
     (if ticks_diff current_time (release_time rs) \<ge> 500
      then rs\<lparr>state := ''RELEASED''\<rparr>
      else rs)"

definition handle_released_state :: "release_system \<Rightarrow> int \<Rightarrow> release_system" where
  "handle_released_state rs current_time =
     (if ticks_diff current_time (release_time rs) \<ge> auto_lock_time then lock rs else rs)"

text \<open>
  A bound method as stored in the dictionary \<open>state_handlers\<close> of \<open>update\<close>, with the
  number of arguments it is declared to take after \<open>self\<close>. \<open>update\<close> calls the handler it
  finds as \<open>handler(current_time, rc_signal)\<close>; Python raises TypeError, before the
  body runs, when a method declared with one parameter is called with two arguments.
\<close>

datatype handler =
    Method2 "release_system \<Rightarrow> int \<Rightarrow> int \<Rightarrow> release_system"
  | Method1 "release_system \<Rightarrow> int \<Rightarrow> release_system"

fun call_with_two :: "handler \<Rightarrow> release_system \<Rightarrow> int \<Rightarrow> int \<Rightarrow> error + release_system" where
  "call_with_two (Method2 f) rs a b = Inr (f rs a b)"
| "call_with_two (Method1 f) rs a b = Inl TypeError"

definition state_handlers :: "(string \<times> handler) list" where
  "state_handlers =
     [(''LOCKED'', Method2 handle_locked_state),
      (''ARMED'', Method2 handle_armed_state),
      (''RELEASING'', Method1 handle_releasing_state),
      (''RELEASED'', Method1 handle_released_state)]"

text \<open>
  \<open>ReleaseSystem.update\<close>: the exception that leaves the call, if any, and the release
  system, receiver, LED manager and interaction count after it.
\<close>

definition update ::
  "world \<Rightarrow> release_system \<Rightarrow> rc_receiver \<Rightarrow> led_manager \<Rightarrow> nat
     \<Rightarrow> error option \<times> release_system \<times> rc_receiver \<times> led_manager \<times> nat" where
  "update w rs rx lm n =
     (if servo rs = None then (None, rs, rx, lm, n)
      else
        let current_time = ticks_ms_at w n;
            (rc_signal, rx', n1) = read_channel w rx (n + 1)
        in (case map_of state_handlers (state rs) of
              None \<Rightarrow>
                (let (lm', n2) = set_release_pattern w lm n1 (state rs)
                 in (None, rs, rx', lm', n2))
            | Some h \<Rightarrow>
                (case call_with_two h rs current_time rc_signal of
                   Inl e \<Rightarrow> (Some e, rs, rx', lm, n1)
                 | Inr rs' \<Rightarrow>
                     (let (lm', n2) = set_release_pattern w lm n1 (state rs')
                      in (None, rs', rx', lm', n2)))))"

text \<open>\<open>ReleaseSystem.emergency_release\<close>: the returned flag and the objects after the call.\<close>

definition emergency_release ::
  "world \<Rightarrow> release_system \<Rightarrow> led_manager \<Rightarrow> nat \<Rightarrow> bool \<times> release_system \<times> led_manager \<times> nat" where
  "emergency_release w rs lm n =
     (if \<not> emergency_override \<or> servo rs = None then (False, rs, lm, n)
      else
        let rs1 = set_servo_position rs release_position;
            rs2 = rs1\<lparr>state := ''RELEASED''\<rparr>;
            rs3 = rs2\<lparr>release_time := ticks_ms_at w n\<rparr>;
            (lm', n') = alert_sequence lm (n + 1) 5
        in (True, rs3, lm', n'))"

text \<open>\<open>ReleaseSystem.force_lock\<close>\<close>

definition force_lock :: "release_system \<Rightarrow> release_system" where
  "force_lock rs =
     (case servo rs of
        None \<Rightarrow> rs
      | Some _ \<Rightarrow> (set_servo_position rs locked_position)\<lparr>state := ''LOCKED''\<rparr>)"

text \<open>
  \<open>ReleaseSystem.cleanup\<close>: the servo is driven to the locked position, then the PWM
  object is released and \<open>self.servo\<close> set to None. The sleep is one interaction.
\<close>

definition cleanup :: "release_system \<Rightarrow> nat \<Rightarrow> release_system \<times> nat" where
  "cleanup rs n =
     (case servo rs of
        None \<Rightarrow> (rs, n)
      | Some _ \<Rightarrow> ((set_servo_position rs locked_position)\<lparr>servo := None\<rparr>, n + 1))"

section \<open>sensors.py\<close>

subsection \<open>MPU6050\<close>

record mpu6050 =
  available :: bool

text \<open>\<open>struct.unpack('>h', ...)\<close>: a big-endian signed 16-bit integer from two bytes.\<close>

definition unpack_h :: "8 word \<Rightarrow> 8 word \<Rightarrow> int" where
  "unpack_h hi lo = sint (word_cat hi lo :: 16 word)"

text \<open>
  \<open>MPU6050._configure_mpu6050\<close>: a register write, a sleep and three more writes; the
  first write that raises ends it.
\<close>

definition configure_mpu6050 :: "world \<Rightarrow> nat \<Rightarrow> error option \<times> nat" where
  "configure_mpu6050 w n =
     (case i2c_at w n of
        Inl e \<Rightarrow> (Some e, n + 1)
      | Inr _ \<Rightarrow>
          (case i2c_at w (n + 2) of
             Inl e \<Rightarrow> (Some e, n + 3)
           | Inr _ \<Rightarrow>
               (case i2c_at w (n + 3) of
                  Inl e \<Rightarrow> (Some e, n + 4)
                | Inr _ \<Rightarrow>
                    (case i2c_at w (n + 4) of
                       Inl e \<Rightarrow> (Some e, n + 5)
                     | Inr _ \<Rightarrow> (None, n + 5)))))"

text \<open>
  \<open>MPU6050._test_communication\<close>: one byte read from WHO\_AM\_I compared with 0x68; an
  exception (also the IndexError of an empty answer) gives False.
\<close>

definition test_communication :: "world \<Rightarrow> nat \<Rightarrow> bool \<times> nat" where
  "test_communication w n =
     (case i2c_at w n of
        Inl e \<Rightarrow> (False, n + 1)
      | Inr data \<Rightarrow> (case data of [] \<Rightarrow> (False, n + 1) | b # _ \<Rightarrow> (b = 0x68, n + 1)))"

text \<open>
  \<open>MPU6050.__init__\<close>: the bus object is created (interaction \<open>n\<close>), the sensor is
  configured and probed; any exception leaves \<open>available\<close> False.
\<close>

definition MPU6050_init :: "world \<Rightarrow> nat \<Rightarrow> mpu6050 \<times> nat" where
  "MPU6050_init w n =
     (case i2c_at w n of
        Inl e \<Rightarrow> (\<lparr>available = False\<rparr>, n + 1)
      | Inr _ \<Rightarrow>
          (case configure_mpu6050 w (n + 1) of
             (Some e, n1) \<Rightarrow> (\<lparr>available = False\<rparr>, n1)
           | (None, n1) \<Rightarrow>
               (case test_communication w n1 of
                  (True, n2) \<Rightarrow> (\<lparr>available = True\<rparr>, n2)
                | (False, n2) \<Rightarrow> (\<lparr>available = False\<rparr>, n2))))"

text \<open>
  \<open>MPU6050.read_raw_data\<close>: None when the sensor is not available, when the bus read
  raises, or when the answer is too short for the four slices that are unpacked.
\<close>

definition MPU6050_read_raw_data ::
  "world \<Rightarrow> mpu6050 \<Rightarrow> nat \<Rightarrow> (real \<times> real \<times> real \<times> real) option \<times> nat" where
  "MPU6050_read_raw_data w m n =
     (if \<not> available m then (None, n)
      else
        (case i2c_at w n of
           Inl e \<Rightarrow> (None, n + 1)
         | Inr data \<Rightarrow>
             if length data < 14 then (None, n + 1)
             else
               let ax = real_of_int (unpack_h (data ! 0) (data ! 1)) / 16384;
                   ay = real_of_int (unpack_h (data ! 2) (data ! 3)) / 16384;
                   az = real_of_int (unpack_h (data ! 4) (data ! 5)) / 16384;
                   gz = real_of_int (unpack_h (data ! 12) (data ! 13)) / 131
               in (Some (ax, ay, az, gz), n + 1)))"

text \<open>\<open>math.atan2\<close> and \<open>math.sqrt\<close>; the latter raises ValueError below zero.\<close>

definition atan2 :: "real \<Rightarrow> real \<Rightarrow> real" where
  "atan2 y x =
     (if 0 < x then arctan (y / x)
      else if x < 0 then (if 0 \<le> y then arctan (y / x) + pi else arctan (y / x) - pi)
      else if 0 < y then pi / 2
      else if y < 0 then - pi / 2
      else 0)"

definition py_sqrt :: "real \<Rightarrow> error + real" where
  "py_sqrt x = (if x < 0 then Inl ValueError else Inr (sqrt x))"

definition RAD_TO_DEG :: real where "RAD_TO_DEG = 572958 / 10000"

text \<open>\<open>calculate_attitude\<close>, the same in \<open>MPU6050\<close> and in \<open>SimulatedSensor\<close>\<close>

definition calculate_attitude :: "real \<Rightarrow> real \<Rightarrow> real \<Rightarrow> error + real \<times> real" where
  "calculate_attitude ax ay az =
     (let roll = atan2 ay az * RAD_TO_DEG
      in (case py_sqrt (ay * ay + az * az) of
            Inl e \<Rightarrow> Inl e
          | Inr r \<Rightarrow> Inr (roll, atan2 (- ax) r * RAD_TO_DEG)))"

subsection \<open>SimulatedSensor\<close>

record simulated_sensor =
  start_time :: int

definition SimulatedSensor_init :: "world \<Rightarrow> nat \<Rightarrow> simulated_sensor \<times> nat" where
  "SimulatedSensor_init w n = (\<lparr>start_time = ticks_ms_at w n\<rparr>, n + 1)"

definition SimulatedSensor_read_raw_data ::
  "world \<Rightarrow> simulated_sensor \<Rightarrow> nat \<Rightarrow> (real \<times> real \<times> real \<times> real) option \<times> nat" where
  "SimulatedSensor_read_raw_data w sim n =
     (let t = real_of_int (ticks_diff (ticks_ms_at w n) (start_time sim)) / 5000;
          ax = sin (t * (3 / 10)) * (1 / 10);
          ay = cos (t * (2 / 10)) * (1 / 10);
          az = 1 + sin (t * (1 / 10)) * (5 / 100);
          gz = sin (t * (4 / 10)) * 2
      in (Some (ax, ay, az, gz), n + 1))"

subsection \<open>SensorManager\<close>

text \<open>
  \<open>self.sensor\<close> is either the manager's own MPU6050 object or a simulated sensor.
\<close>

datatype active_sensor = The_mpu6050 | Simulated simulated_sensor

record sensor_manager =
  mpu :: mpu6050
  sensor :: active_sensor
  using_real_sensor :: bool

definition SensorManager_init :: "world \<Rightarrow> nat \<Rightarrow> sensor_manager \<times> nat" where
  "SensorManager_init w n =
     (let (m, n1) = MPU6050_init w n
      in if available m
         then (\<lparr>mpu = m, sensor = The_mpu6050, using_real_sensor = True\<rparr>, n1)
         else
           let (sim, n2) = SimulatedSensor_init w n1
           in (\<lparr>mpu = m, sensor = Simulated sim, using_real_sensor = False\<rparr>, n2))"

text \<open>\<open>self.sensor.read_raw_data()\<close>, dispatched on the active sensor\<close>

definition read_raw_data ::
  "world \<Rightarrow> sensor_manager \<Rightarrow> nat \<Rightarrow> (real \<times> real \<times> real \<times> real) option \<times> nat" where
  "read_raw_data w sm n =
     (case sensor sm of
        The_mpu6050 \<Rightarrow> MPU6050_read_raw_data w (mpu sm) n
      | Simulated sim \<Rightarrow> SimulatedSensor_read_raw_data w sim n)"

text \<open>
  The body of the \<open>try\<close> of \<open>SensorManager.read_attitude\<close>: the tuple it returns or the
  exception it raises, with the manager as the body leaves it.
\<close>

definition read_attitude_body ::
  "world \<Rightarrow> sensor_manager \<Rightarrow> nat
     \<Rightarrow> (error + real \<times> real \<times> real \<times> bool) \<times> sensor_manager \<times> nat" where
  "read_attitude_body w sm n =
     (let (raw_data, n1) = read_raw_data w sm n;
          finish = (\<lambda>sm' n' (ax, ay, az, gz).
                      case calculate_attitude ax ay az of
                        Inl e \<Rightarrow> (Inl e, sm', n')
                      | Inr (roll, pitch) \<Rightarrow> (Inr (roll, pitch, gz, using_real_sensor sm'), sm', n'))
      in (case raw_data of
            None \<Rightarrow>
              if using_real_sensor sm
              then
                let (sim, n2) = SimulatedSensor_init w n1;
                    sm' = sm\<lparr>sensor := Simulated sim, using_real_sensor := False\<rparr>;
                    (raw_data', n3) = read_raw_data w sm' n2
                in (case raw_data' of
                      None \<Rightarrow> (Inl TypeError, sm', n3)
                    | Some d \<Rightarrow> finish sm' n3 d)
              else (Inr (0, 0, 0, False), sm, n1)
          | Some d \<Rightarrow> finish sm n1 d))"

text \<open>
  \<open>SensorManager.read_attitude\<close>: what the body returns, or \<open>(0.0, 0.0, 0.0, False)\<close>
  from the \<open>except\<close> clause. The result keeps the type of a call that may raise.
\<close>

definition read_attitude ::
  "world \<Rightarrow> sensor_manager \<Rightarrow> nat
     \<Rightarrow> (error + real \<times> real \<times> real \<times> bool) \<times> sensor_manager \<times> nat" where
  "read_attitude w sm n =
     (case read_attitude_body w sm n of
        (Inl e, sm', n') \<Rightarrow> (Inr (0, 0, 0, False), sm', n')
      | (Inr sample, sm', n') \<Rightarrow> (Inr sample, sm', n'))"

section \<open>main\_modular.py\<close>













section \<open>Notions used in the statements\<close>

text \<open>The anti-windup clamp and the clamp of an integer angle to the servo range.\<close>

definition clamp_integral :: "real \<Rightarrow> real" where
  "clamp_integral x = max (- real_of_int max_pid_integral) (min (real_of_int max_pid_integral) x)"

definition clamp_angle :: "int \<Rightarrow> int" where
  "clamp_angle a = max servo_min_angle (min servo_max_angle a)"

text \<open>
  Rounding to an integer degree, in the words of the specification: the nearest integer.
  The code does not use it; it is what \<open>py_int\<close> is compared with.
\<close>

definition round_to_degree :: "real \<Rightarrow> int" where
  "round_to_degree x = round x"

text \<open>
  The calls a client can make on a \<open>PIDController\<close>, the controller after one call
  (an exception leaves the controller as the call has changed it up to there), and the
  controllers after each call of a sequence.
\<close>

datatype pid_call =
    Calculate real real real real
  | Calculate_servo_commands real real real
  | Reset
  | Set_flight_mode int
  | Emergency_stop

fun pid_step :: "flight_modes \<Rightarrow> pid_controller \<Rightarrow> pid_call \<Rightarrow> pid_controller" where
  "pid_step M s (Calculate roll pitch yaw_rate dt) = fst (calculate M s roll pitch yaw_rate dt)"
| "pid_step M s (Calculate_servo_commands roll pitch yaw_rate) =
     fst (calculate_servo_commands M s roll pitch yaw_rate)"
| "pid_step M s Reset = reset s"
| "pid_step M s (Set_flight_mode mode_index) = fst (set_flight_mode M s mode_index)"
| "pid_step M s Emergency_stop = emergency_stop s"

fun pid_trace :: "flight_modes \<Rightarrow> pid_controller \<Rightarrow> pid_call list \<Rightarrow> pid_controller list" where
  "pid_trace M s [] = []"
| "pid_trace M s (c # cs) = pid_step M s c # pid_trace M (pid_step M s c) cs"

definition integral_within_limits :: "pid_controller \<Rightarrow> bool" where
  "integral_within_limits s =
     (length (integral s) = 3 \<and>
      list_all (\<lambda>x. - real_of_int max_pid_integral \<le> x \<and> x \<le> real_of_int max_pid_integral)
        (integral s))"

text \<open>
  Successive calls of \<open>read_attitude\<close>, made at the given interaction counts: the
  results of the calls and the manager after the last call.
\<close>

fun read_attitude_seq ::
  "world \<Rightarrow> sensor_manager \<Rightarrow> nat list
     \<Rightarrow> (error + real \<times> real \<times> real \<times> bool) list \<times> sensor_manager" where
  "read_attitude_seq w sm [] = ([], sm)"
| "read_attitude_seq w sm (n # ns) =
     (let (r, sm', n') = read_attitude w sm n;
          (rs, sm'') = read_attitude_seq w sm' ns
      in (r # rs, sm''))"

text \<open>A call returned a sample, and the sample's fourth component \<open>is_valid\<close> is False.\<close>

fun returns_invalid_sample :: "error + real \<times> real \<times> real \<times> bool \<Rightarrow> bool" where
  "returns_invalid_sample (Inl e) = False"
| "returns_invalid_sample (Inr (roll, pitch, yaw_rate, is_valid)) = (\<not> is_valid)"

text \<open>
  The manager with a working MPU6050, as \<open>SensorManager.__init__\<close> leaves it when the
  probe succeeds.
\<close>

definition real_sensor_manager :: sensor_manager where
  "real_sensor_manager = \<lparr>mpu = \<lparr>available = True\<rparr>, sensor = The_mpu6050, using_real_sensor = True\<rparr>"


subsection \<open>Concrete inputs\<close>

text \<open>
  A world in which the clock reads 1000 ms until interaction \<open>edge + 4\<close> and \<open>later_ms\<close>
  from then on, the microsecond clock advances by \<open>step_us\<close> per interaction, the RC pin
  is high at interaction \<open>edge\<close> only, and every bus transfer raises. A read of the RC
  channel that polls the pin first at interaction \<open>edge\<close> measures \<open>2 * step_us\<close>.
\<close>

definition pulse_world :: "nat \<Rightarrow> int \<Rightarrow> int \<Rightarrow> world" where
  "pulse_world edge step_us later_ms =
     \<lparr>ticks_ms_at = (\<lambda>k. if k < edge + 4 then 1000 else later_ms),
      ticks_us_at = (\<lambda>k. step_us * int k),
      rc_pin_at = (\<lambda>k. if k = edge then Inr 1 else Inr 0),
      i2c_at = (\<lambda>k. Inl OSError)\<rparr>"

text \<open>The receiver as \<open>RCReceiver.__init__\<close> leaves it, and an LED manager with four LEDs.\<close>

definition fresh_receiver :: rc_receiver where
  "fresh_receiver = \<lparr>rc_pin = True, last_read_time = 0\<rparr>"

definition four_leds :: led_manager where
  "four_leds =
     \<lparr>available_leds = [''system_active'' \<mapsto> 0, ''mode'' \<mapsto> 0, ''alert'' \<mapsto> 0, ''release'' \<mapsto> 1]\<rparr>"

text \<open>
  The release system as \<open>_initiate_release\<close> leaves it when called at time 0 on the
  initial system, and that system 500 ms later in the state 'RELEASED'.
\<close>

definition releasing_system :: release_system where
  "releasing_system = initiate_release ReleaseSystem_init 0"

definition released_system :: release_system where
  "released_system = releasing_system\<lparr>state := ''RELEASED''\<rparr>"






section \<open>Properties of the PID controller\<close>

lemma integrate_3:
  "length xs = 3 \<Longrightarrow> integrate errors dt xs =
     (None, [clamp_integral (xs ! 0 + errors ! 0 * dt), clamp_integral (xs ! 1 + errors ! 1 * dt),
             clamp_integral (xs ! 2 + errors ! 2 * dt)])"
  by (cases xs; cases "tl xs"; cases "tl (tl xs)")
     (auto simp: integrate_def integrate_axis_def clamp_integral_def Let_def)

lemma clamp_integral_bounds:
  "- real_of_int max_pid_integral \<le> clamp_integral x \<and> clamp_integral x \<le> real_of_int max_pid_integral"
  by (simp add: clamp_integral_def max_pid_integral_def)

lemma integral_calculate:
  "integral (fst (calculate M s roll pitch yaw_rate dt)) = integral s \<or>
   (\<exists>errors. integral (fst (calculate M s roll pitch yaw_rate dt))
      = snd (integrate errors dt (integral s)))"
proof (cases "map_of M (flight_mode s)")
  case None
  then show ?thesis by (simp add: calculate_def)
next
  case (Some mode)
  show ?thesis
  proof (cases "length (target mode) < 2")
    case True
    with Some show ?thesis by (simp add: calculate_def)
  next
    case False
    let ?errors = "[target mode ! 0 - roll, target mode ! 1 - pitch, - yaw_rate]"
    have "integral (fst (calculate M s roll pitch yaw_rate dt))
            = snd (integrate ?errors dt (integral s))"
      using Some False
      by (cases "integrate ?errors dt (integral s)")
         (auto simp: calculate_def Let_def split: option.splits)
    then show ?thesis by blast
  qed
qed

lemma flight_mode_calculate:
  "flight_mode (fst (calculate M s roll pitch yaw_rate dt)) = flight_mode s"
  by (auto simp: calculate_def Let_def split: option.splits prod.splits)

lemma fst_calculate_servo_commands:
  "fst (calculate_servo_commands M s roll pitch yaw_rate) = fst (calculate M s roll pitch yaw_rate (1 / 10))"
  by (auto simp: calculate_servo_commands_def Let_def split: prod.splits sum.splits option.splits)

lemma within_integrate:
  "length xs = 3 \<Longrightarrow> integral s' = snd (integrate errors dt xs) \<Longrightarrow> integral_within_limits s'"
  using clamp_integral_bounds by (simp add: integrate_3 integral_within_limits_def)

lemma within_calculate:
  assumes "integral_within_limits s"
  shows "integral_within_limits (fst (calculate M s roll pitch yaw_rate dt))"
proof -
  let ?s' = "fst (calculate M s roll pitch yaw_rate dt)"
  from assms have len: "length (integral s) = 3" by (simp add: integral_within_limits_def)
  from integral_calculate [of M s roll pitch yaw_rate dt]
  consider "integral ?s' = integral s"
    | errors where "integral ?s' = snd (integrate errors dt (integral s))" by blast
  then show ?thesis
  proof cases
    case 1
    with assms show ?thesis by (simp add: integral_within_limits_def)
  next
    case 2
    with len show ?thesis by (rule within_integrate)
  qed
qed

lemma within_reset: "integral_within_limits (reset s)"
  by (simp add: reset_def integral_within_limits_def max_pid_integral_def)

lemma within_step: "integral_within_limits s \<Longrightarrow> integral_within_limits (pid_step M s c)"
proof (cases c)
  case (Calculate roll pitch yaw_rate dt)
  assume "integral_within_limits s"
  then show ?thesis using Calculate by (simp add: within_calculate)
next
  case (Calculate_servo_commands roll pitch yaw_rate)
  assume "integral_within_limits s"
  then show ?thesis using Calculate_servo_commands
    by (simp add: fst_calculate_servo_commands within_calculate)
next
  case Reset
  then show ?thesis by (simp add: within_reset)
next
  case (Set_flight_mode mode_index)
  assume "integral_within_limits s"
  then show ?thesis using Set_flight_mode
    by (simp add: set_flight_mode_def within_reset)
next
  case Emergency_stop
  then show ?thesis by (simp add: emergency_stop_def within_reset)
qed

lemma within_trace:
  "integral_within_limits s \<Longrightarrow> list_all integral_within_limits (pid_trace M s calls)"
  by (induction calls arbitrary: s) (simp_all add: within_step)

text \<open>
  Claim C5. From the initial controller, after each call of any sequence of calls of
  \<open>calculate\<close> (any attitude, any \<open>dt\<close>, also one that makes the call raise),
  \<open>calculate_servo_commands\<close>, \<open>reset\<close>, \<open>set_flight_mode\<close> and \<open>emergency_stop\<close>, with any
  table of flight modes, the controller has three integrals and each lies between
  \<open>- max_pid_integral\<close> and \<open>max_pid_integral\<close>.
\<close>

theorem integral_stays_within_limits:
  "list_all integral_within_limits (pid_trace M PIDController_init calls)"
  by (rule within_trace)
     (simp add: PIDController_init_def integral_within_limits_def max_pid_integral_def)

text \<open>
  Claim C2. With \<open>dt = 0\<close> the call does not return: on the initial controller with the
  stabilisation mode, \<open>calculate(10.0, 5.0, 2.0, 0.0)\<close> raises ZeroDivisionError. No branch
  of \<open>calculate\<close> tests \<open>dt\<close>.
\<close>

theorem calculate_dt_zero_raises:
  "calculate stabilization_modes PIDController_init 10 5 2 0 = (PIDController_init, Inl ZeroDivisionError)"
  by (simp add: calculate_def stabilization_modes_def PIDController_init_def integrate_def
        integrate_axis_def max_pid_integral_def Let_def)

lemma calculate_dt_zero_never_returns:
  "snd (calculate M s roll pitch yaw_rate 0) \<noteq> Inr out"
  by (auto simp: calculate_def Let_def split: option.splits prod.splits)

lemma py_int_mono:
  assumes "x \<le> y"
  shows "py_int x \<le> py_int y"
proof (cases "0 \<le> x")
  case True
  with assms show ?thesis by (simp add: py_int_def floor_mono)
next
  case neg: False
  show ?thesis
  proof (cases "0 \<le> y")
    case True
    from neg have "\<lceil>x\<rceil> \<le> 0" by (simp add: ceiling_le_zero)
    moreover from True have "0 \<le> \<lfloor>y\<rfloor>" by simp
    ultimately have "\<lceil>x\<rceil> \<le> \<lfloor>y\<rfloor>" by (rule order_trans)
    then show ?thesis using neg True by (simp add: py_int_def)
  next
    case False
    with neg assms show ?thesis by (simp add: py_int_def ceiling_mono)
  qed
qed

lemma py_int_of_int: "py_int (real_of_int k) = k"
  by (simp add: py_int_def)

lemma limit_command_round_clamp: "limit_command cmd = clamp_angle (py_int cmd)"
proof -
  let ?lo = "real_of_int servo_min_angle" and ?hi = "real_of_int servo_max_angle"
  have lohi: "?lo \<le> ?hi" "servo_min_angle \<le> servo_max_angle"
    by (simp_all add: servo_min_angle_def servo_max_angle_def)
  consider "cmd \<le> ?lo" | "?lo < cmd" "cmd < ?hi" | "?hi \<le> cmd" by linarith
  then show ?thesis
  proof cases
    case 1
    then have "py_int cmd \<le> servo_min_angle" using py_int_mono [OF 1] by (simp add: py_int_of_int)
    with 1 lohi show ?thesis
      by (simp add: limit_command_def clamp_angle_def py_int_of_int)
  next
    case 2
    have "servo_min_angle \<le> py_int cmd" using py_int_mono [of ?lo cmd] 2 by (simp add: py_int_of_int)
    moreover have "py_int cmd \<le> servo_max_angle"
      using py_int_mono [of cmd ?hi] 2 by (simp add: py_int_of_int)
    ultimately show ?thesis using 2
      by (simp add: limit_command_def clamp_angle_def)
  next
    case 3
    then have "servo_max_angle \<le> py_int cmd" using py_int_mono [OF 3] by (simp add: py_int_of_int)
    with 3 lohi show ?thesis
      by (simp add: limit_command_def clamp_angle_def py_int_of_int)
  qed
qed

lemma clamp_angle_range: "servo_min_angle \<le> clamp_angle a \<and> clamp_angle a \<le> servo_max_angle"
  by (simp add: clamp_angle_def servo_min_angle_def servo_max_angle_def)

lemma servo_commands_in_range:
  assumes "snd (calculate_servo_commands M s roll pitch yaw_rate) = Inr cmds"
  shows "length cmds = 4 \<and> (\<forall>c \<in> set cmds. servo_min_angle \<le> c \<and> c \<le> servo_max_angle)"
  using assms clamp_angle_range
  by (auto simp: calculate_servo_commands_def Let_def limit_command_round_clamp
        split: prod.splits sum.splits option.splits)

text \<open>
  Claim C4, amended. When the PID computation of \<open>calculate_servo_commands\<close> yields the
  outputs \<open>(rollOut, pitchOut, yawOut)\<close> and the active mode has the flap bias
  \<open>flaps mode\<close>, the call returns the four values \<open>neutral + flaps - rollOut\<close>,
  \<open>neutral + flaps + rollOut\<close>, \<open>neutral - pitchOut\<close> and \<open>neutral + yawOut\<close>, each
  truncated toward zero to an integer degree (Python's \<open>int\<close>) and clamped to the servo
  range; and every list of commands that the call returns, from any controller and
  input, has four angles within the servo range.
\<close>

theorem servo_commands_mixed_rounded_clamped:
  "(calculate M s roll pitch yaw_rate (1 / 10) = (s', Inr (rollOut, pitchOut, yawOut))
      \<and> map_of M (flight_mode s) = Some mode \<longrightarrow>
    calculate_servo_commands M s roll pitch yaw_rate =
      (s', Inr [clamp_angle (py_int (real_of_int servo_neutral_angle + real_of_int (flaps mode) - rollOut)),
                clamp_angle (py_int (real_of_int servo_neutral_angle + real_of_int (flaps mode) + rollOut)),
                clamp_angle (py_int (real_of_int servo_neutral_angle - pitchOut)),
                clamp_angle (py_int (real_of_int servo_neutral_angle + yawOut))]))
   \<and> (snd (calculate_servo_commands M s roll pitch yaw_rate) = Inr cmds \<longrightarrow>
        length cmds = 4 \<and> (\<forall>c \<in> set cmds. servo_min_angle \<le> c \<and> c \<le> servo_max_angle))"
proof -
  have "calculate_servo_commands M s roll pitch yaw_rate =
      (s', Inr [clamp_angle (py_int (real_of_int servo_neutral_angle + real_of_int (flaps mode) - rollOut)),
                clamp_angle (py_int (real_of_int servo_neutral_angle + real_of_int (flaps mode) + rollOut)),
                clamp_angle (py_int (real_of_int servo_neutral_angle - pitchOut)),
                clamp_angle (py_int (real_of_int servo_neutral_angle + yawOut))])"
    if pid_out: "calculate M s roll pitch yaw_rate (1 / 10) = (s', Inr (rollOut, pitchOut, yawOut))"
      and mode: "map_of M (flight_mode s) = Some mode"
  proof -
    have fm: "flight_mode s' = flight_mode s"
      using flight_mode_calculate [of M s roll pitch yaw_rate "1 / 10"] pid_out by simp
    show ?thesis
      using pid_out mode fm
      by (simp add: calculate_servo_commands_def Let_def limit_command_round_clamp)
  qed
  with servo_commands_in_range [of M s roll pitch yaw_rate cmds] show ?thesis by blast
qed

lemma calculate_example:
  "calculate stabilization_modes PIDController_init 10 5 2 (1 / 10) =
     (\<lparr>integral = [- 1, - (1 / 2), - (1 / 5)], prev_error = [- 10, - 5, - 2], flight_mode = 0\<rparr>,
      Inr (- 25, - 30, - (3103 / 250)))"
  by (simp add: calculate_def stabilization_modes_def PIDController_init_def integrate_def
        integrate_axis_def max_pid_integral_def limit_output_def STABILIZATION_GAINS_def
        STABILIZATION_LIMITS_def Let_def)

theorem servo_commands_mixed_rounded_clamped_witness:
  "calculate stabilization_modes PIDController_init 10 5 2 (1 / 10) =
     (\<lparr>integral = [- 1, - (1 / 2), - (1 / 5)], prev_error = [- 10, - 5, - 2], flight_mode = 0\<rparr>,
      Inr (- 25, - 30, - (3103 / 250)))
   \<and> calculate_servo_commands stabilization_modes PIDController_init 10 5 2 =
     (\<lparr>integral = [- 1, - (1 / 2), - (1 / 5)], prev_error = [- 10, - 5, - 2], flight_mode = 0\<rparr>,
      Inr [115, 65, 120, 77])"
proof -
  have m: "map_of stabilization_modes (flight_mode PIDController_init) =
             Some \<lparr>name = ''ESTABILIZACAO'', gains = STABILIZATION_GAINS,
                   limits = STABILIZATION_LIMITS, target = [0, 0], flaps = 0\<rparr>"
    by (simp add: stabilization_modes_def PIDController_init_def)
  from servo_commands_mixed_rounded_clamped
         [of stabilization_modes PIDController_init 10 5 2 _ "- 25" "- 30" "- (3103 / 250)" _
             "[115, 65, 120, 77]"]
       calculate_example m
  show ?thesis
    by (simp add: clamp_angle_def py_int_def servo_neutral_angle_def servo_min_angle_def
          servo_max_angle_def)
qed

lemma servo_commands_example:
  "calculate_servo_commands stabilization_modes PIDController_init 10 5 2 =
     (\<lparr>integral = [- 1, - (1 / 2), - (1 / 5)], prev_error = [- 10, - 5, - 2], flight_mode = 0\<rparr>,
      Inr [115, 65, 120, 77])"
  unfolding calculate_servo_commands_def calculate_example
  by (simp add: stabilization_modes_def limit_command_def py_int_def servo_neutral_angle_def
        servo_min_angle_def servo_max_angle_def)

text \<open>
  Claim C4 as stated fails where "rounded" is read as rounding to the nearest integer: on
  the initial controller with the stabilisation mode and the attitude (10, 5, 2) the PID
  outputs are (-25, -30, -12.412), the rudder value is 77.588, and the call returns 77
  for the rudder where rounding gives 78.
\<close>

theorem servo_commands_not_rounded_to_nearest:
  "snd (calculate stabilization_modes PIDController_init 10 5 2 (1 / 10))
     = Inr (- 25, - 30, - (3103 / 250))
   \<and> snd (calculate_servo_commands stabilization_modes PIDController_init 10 5 2)
       = Inr [115, 65, 120, 77]
   \<and> clamp_angle (round_to_degree (real_of_int servo_neutral_angle + (- (3103 / 250)))) = 78
   \<and> snd (calculate_servo_commands stabilization_modes PIDController_init 10 5 2)
       \<noteq> Inr [clamp_angle (round_to_degree (real_of_int servo_neutral_angle + 0 - (- 25))),
               clamp_angle (round_to_degree (real_of_int servo_neutral_angle + 0 + (- 25))),
               clamp_angle (round_to_degree (real_of_int servo_neutral_angle - (- 30))),
               clamp_angle (round_to_degree (real_of_int servo_neutral_angle + (- (3103 / 250))))]"
proof -
  have "round_to_degree (real_of_int servo_neutral_angle + (- (3103 / 250))) = 78"
    by (simp add: round_to_degree_def round_def servo_neutral_angle_def)
  then have "clamp_angle (round_to_degree (real_of_int servo_neutral_angle + (- (3103 / 250)))) = 78"
    by (simp add: clamp_angle_def servo_min_angle_def servo_max_angle_def)
  then show ?thesis by (simp add: servo_commands_example calculate_example)
qed





section \<open>Properties of the RC receiver\<close>

lemma read_channel_fresh_example:
  "read_channel (pulse_world 2 900 1010) fresh_receiver 0 =
     (1800, \<lparr>rc_pin = True, last_read_time = 1000\<rparr>, 6)"
  by (simp add: read_channel_def pulse_world_def fresh_receiver_def ticks_diff_def
        rc_read_interval_def measure_pulse_def rc_min_pulse_def rc_max_pulse_def Let_def)

text \<open>
  Claim C3. A second call less than \<open>rc_read_interval\<close> after a fresh read does not
  return the value that read measured: the first call, at 1000 ms, measures and returns
  1800; the second, 10 ms later, returns the neutral 1500.
\<close>

theorem read_channel_within_interval_returns_neutral:
  "read_channel (pulse_world 2 900 1010) fresh_receiver 0 =
     (1800, \<lparr>rc_pin = True, last_read_time = 1000\<rparr>, 6)
   \<and> ticks_diff (ticks_ms_at (pulse_world 2 900 1010) 6) 1000 = 10
   \<and> read_channel (pulse_world 2 900 1010) \<lparr>rc_pin = True, last_read_time = 1000\<rparr> 6 =
     (1500, \<lparr>rc_pin = True, last_read_time = 1000\<rparr>, 7)"
  by (simp add: read_channel_fresh_example)
     (simp add: read_channel_def pulse_world_def ticks_diff_def rc_read_interval_def
        rc_neutral_pulse_def)

lemma read_channel_rate_limited:
  "rc_pin rx \<Longrightarrow> ticks_diff (ticks_ms_at w n) (last_read_time rx) < rc_read_interval \<Longrightarrow>
     read_channel w rx n = (rc_neutral_pulse, rx, n + 1)"
  by (simp add: read_channel_def)

text \<open>
  Claim C9. Every value returned by \<open>read_channel\<close> lies between \<open>rc_min_pulse\<close> and
  \<open>rc_max_pulse\<close> or is \<open>rc_neutral_pulse\<close>; and a fresh read (pin present, interval
  elapsed) that measures a width below 800 or above 2200 returns 1500.
\<close>

theorem read_channel_in_range_or_neutral:
  "((rc_min_pulse \<le> fst (read_channel w rx n) \<and> fst (read_channel w rx n) \<le> rc_max_pulse)
      \<or> fst (read_channel w rx n) = rc_neutral_pulse)
   \<and> (rc_pin rx \<and> \<not> ticks_diff (ticks_ms_at w n) (last_read_time rx) < rc_read_interval
        \<and> fst (measure_pulse w (n + 2)) = Measured pulse_width
        \<and> (pulse_width < 800 \<or> 2200 < pulse_width)
      \<longrightarrow> fst (read_channel w rx n) = 1500)"
  by (auto simp: read_channel_def Let_def rc_min_pulse_def rc_max_pulse_def rc_neutral_pulse_def
           split: prod.splits pulse_reading.splits)

theorem read_channel_in_range_or_neutral_witness:
  "rc_pin fresh_receiver
   \<and> \<not> ticks_diff (ticks_ms_at (pulse_world 2 1500 1010) 0) (last_read_time fresh_receiver)
         < rc_read_interval
   \<and> fst (measure_pulse (pulse_world 2 1500 1010) 2) = Measured 3000
   \<and> fst (read_channel (pulse_world 2 1500 1010) fresh_receiver 0) = 1500"
proof -
  have a: "rc_pin fresh_receiver" by (simp add: fresh_receiver_def)
  have b: "\<not> ticks_diff (ticks_ms_at (pulse_world 2 1500 1010) 0) (last_read_time fresh_receiver)
             < rc_read_interval"
    by (simp add: pulse_world_def fresh_receiver_def ticks_diff_def rc_read_interval_def)
  have c: "fst (measure_pulse (pulse_world 2 1500 1010) 2) = Measured 3000"
    by (simp add: measure_pulse_def pulse_world_def ticks_diff_def)
  then have c': "fst (measure_pulse (pulse_world 2 1500 1010) (0 + 2)) = Measured 3000"
    by (simp only: add_0_left)
  have d: "(3000::int) < 800 \<or> 2200 < (3000::int)" by simp
  from read_channel_in_range_or_neutral [of "pulse_world 2 1500 1010" fresh_receiver 0 3000]
  have "fst (read_channel (pulse_world 2 1500 1010) fresh_receiver 0) = 1500"
    using a b c' d by blast
  with a b c show ?thesis by blast
qed

section \<open>Properties of the release system\<close>

lemma releasing_system_eq:
  "releasing_system = \<lparr>state = ''RELEASING'', armed_time = 0, release_time = 0, servo = Some 96\<rparr>"
  by (simp add: releasing_system_def initiate_release_def ReleaseSystem_init_def
        set_servo_position_def release_angle_to_duty_def locked_position_def release_position_def
        pwm_min_duty_def pwm_max_duty_def)


text \<open>
  A consequence of the neutral value returned inside the read interval: an armed release
  system is disarmed by the next \<open>update\<close> that comes within the interval, whatever the
  radio sends.
\<close>

lemma rate_limited_update_disarms:
  assumes "servo rs \<noteq> None" "state rs = ''ARMED''" "rc_pin rx"
    "ticks_diff (ticks_ms_at w (n + 1)) (last_read_time rx) < rc_read_interval"
  shows "state (fst (snd (update w rs rx lm n))) = ''LOCKED''"
  using assms
  by (auto simp: update_def state_handlers_def read_channel_def handle_armed_state_def
        set_release_pattern_def rc_neutral_pulse_def rc_threshold_def Let_def
        split: prod.splits option.splits)

text \<open>
  Claim C1. In the states 'RELEASING' and 'RELEASED', with the servo initialised,
  \<open>update\<close> raises TypeError and leaves the state as it was: in 'RELEASING' 1000 ms after
  \<open>release_time\<close>, past the release duration of 500 ms, and in 'RELEASED' 6000 ms after
  \<open>release_time\<close>, past the automatic lock delay.
\<close>

theorem update_in_releasing_raises_type_error:
  "state releasing_system = ''RELEASING'' \<and> servo releasing_system \<noteq> None
   \<and> ticks_diff (ticks_ms_at (pulse_world 3 900 1010) 0) (release_time releasing_system) \<ge> 500
   \<and> update (pulse_world 3 900 1010) releasing_system fresh_receiver four_leds 0 =
       (Some TypeError, releasing_system, \<lparr>rc_pin = True, last_read_time = 1000\<rparr>, four_leds, 7)
   \<and> state released_system = ''RELEASED'' \<and> servo released_system \<noteq> None
   \<and> ticks_diff (ticks_ms_at (pulse_world 0 900 6000) 4) (release_time released_system)
         \<ge> auto_lock_time
   \<and> update (pulse_world 0 900 6000) released_system \<lparr>rc_pin = True, last_read_time = 5990\<rparr>
         four_leds 4 =
       (Some TypeError, released_system, \<lparr>rc_pin = True, last_read_time = 5990\<rparr>, four_leds, 6)"
  by (simp add: released_system_def releasing_system_eq update_def state_handlers_def
        read_channel_def pulse_world_def fresh_receiver_def ticks_diff_def rc_read_interval_def
        measure_pulse_def rc_min_pulse_def rc_max_pulse_def rc_neutral_pulse_def auto_lock_time_def
        Let_def)

text \<open>
  Claim C7 as stated fails when there is no servo object: after \<open>cleanup\<close> the state is
  'LOCKED' and the override is enabled, yet \<open>emergency_release\<close> returns False and
  changes nothing.
\<close>

theorem emergency_release_without_servo:
  "emergency_override
   \<and> state (fst (cleanup ReleaseSystem_init 0)) = ''LOCKED''
   \<and> emergency_release (pulse_world 3 900 1010) (fst (cleanup ReleaseSystem_init 0)) four_leds 1 =
       (False, fst (cleanup ReleaseSystem_init 0), four_leds, 1)"
  by (simp add: emergency_override_def cleanup_def ReleaseSystem_init_def set_servo_position_def
        emergency_release_def)

text \<open>
  Claim C7, amended. From each of the four states, if the emergency override is enabled
  and the release servo is initialised, \<open>emergency_release\<close> returns True and leaves the
  state 'RELEASED', the servo at the duty of the release angle and \<open>release_time\<close> at the
  time of the call, whatever \<open>armed_time\<close> is.
\<close>

theorem emergency_release_with_servo:
  assumes "emergency_override" and "servo rs \<noteq> None"
    and "state rs \<in> {''LOCKED'', ''ARMED'', ''RELEASING'', ''RELEASED''}"
  shows "fst (emergency_release w rs lm n) = True
       \<and> state (fst (snd (emergency_release w rs lm n))) = ''RELEASED''
       \<and> servo (fst (snd (emergency_release w rs lm n))) = Some (release_angle_to_duty release_position)
       \<and> release_time (fst (snd (emergency_release w rs lm n))) = ticks_ms_at w n"
  using assms
  by (auto simp: emergency_release_def set_servo_position_def Let_def split: prod.splits option.splits)

theorem emergency_release_with_servo_witness:
  "emergency_override \<and> servo ReleaseSystem_init \<noteq> None
   \<and> state ReleaseSystem_init \<in> {''LOCKED'', ''ARMED'', ''RELEASING'', ''RELEASED''}
   \<and> fst (emergency_release (pulse_world 3 900 1010) ReleaseSystem_init four_leds 0) = True
   \<and> fst (snd (emergency_release (pulse_world 3 900 1010) ReleaseSystem_init four_leds 0)) =
       \<lparr>state = ''RELEASED'', armed_time = 0, release_time = 1000, servo = Some 96\<rparr>"
proof -
  have a: "emergency_override" by (simp add: emergency_override_def)
  have b: "servo ReleaseSystem_init \<noteq> None"
    by (simp add: ReleaseSystem_init_def set_servo_position_def)
  have c: "state ReleaseSystem_init \<in> {''LOCKED'', ''ARMED'', ''RELEASING'', ''RELEASED''}"
    by (simp add: ReleaseSystem_init_def set_servo_position_def)
  have d: "armed_time (fst (snd (emergency_release (pulse_world 3 900 1010) ReleaseSystem_init four_leds 0))) = 0"
    by (simp add: emergency_release_def emergency_override_def ReleaseSystem_init_def
          set_servo_position_def Let_def split_def)
  from emergency_release_with_servo [OF a b c, of "pulse_world 3 900 1010" four_leds 0] a b c d
  show ?thesis
    by (cases "fst (snd (emergency_release (pulse_world 3 900 1010) ReleaseSystem_init four_leds 0))")
       (simp add: release_angle_to_duty_def release_position_def pwm_min_duty_def pwm_max_duty_def
          pulse_world_def)
qed

section \<open>Properties of the sensor manager\<close>

lemma calculate_attitude_returns: "\<exists>roll pitch. calculate_attitude ax ay az = Inr (roll, pitch)"
  by (simp add: calculate_attitude_def py_sqrt_def Let_def not_less)

lemma read_attitude_returns: "\<exists>sample. fst (read_attitude w sm n) = Inr sample"
  by (auto simp: read_attitude_def split: prod.splits sum.splits)

lemma read_attitude_simulated:
  assumes "\<not> using_real_sensor sm"
  shows "returns_invalid_sample (fst (read_attitude w sm n)) \<and> fst (snd (read_attitude w sm n)) = sm"
  using assms
  by (auto simp: read_attitude_def read_attitude_body_def Let_def
      split: prod.splits sum.splits option.splits)

lemma read_attitude_after_failed_read:
  assumes "fst (read_raw_data w sm n) = None"
  shows "returns_invalid_sample (fst (read_attitude w sm n))
       \<and> \<not> using_real_sensor (fst (snd (read_attitude w sm n)))"
  using assms
  by (auto simp: read_attitude_def read_attitude_body_def Let_def
      split: prod.splits sum.splits option.splits)

lemma read_attitude_seq_simulated:
  "\<not> using_real_sensor sm \<Longrightarrow>
     list_all returns_invalid_sample (fst (read_attitude_seq w sm ns))
     \<and> snd (read_attitude_seq w sm ns) = sm"
proof (induction ns)
  case Nil
  then show ?case by simp
next
  case (Cons n ns)
  obtain r sm' n' where r: "read_attitude w sm n = (r, sm', n')"
    by (cases "read_attitude w sm n") auto
  from read_attitude_simulated [OF Cons.prems, of w n] r
  have 1: "returns_invalid_sample r" "sm' = sm" by simp_all
  from Cons.IH [OF Cons.prems] 1 r show ?case
    by (simp add: split_def Let_def)
qed

lemma init_after_failed_probe:
  "\<not> available (fst (MPU6050_init w n)) \<Longrightarrow> \<not> using_real_sensor (fst (SensorManager_init w n))"
  by (simp add: SensorManager_init_def Let_def split_def)

text \<open>
  Claim C6. \<open>read_attitude\<close> returns a sample from every manager in every world (also
  when bus transfers raise); a manager built after a failed probe uses the simulated
  source; a call in which the active sensor's read returns None delivers an invalid
  sample and leaves the manager on the simulated source; and from a manager on the
  simulated source every later call, at any time, returns a sample with
  \<open>is_valid = False\<close> and leaves the manager as it is.
\<close>

theorem sensor_fallback_is_sticky:
  "(\<exists>sample. fst (read_attitude w sm n) = Inr sample)
   \<and> (\<not> available (fst (MPU6050_init w n)) \<longrightarrow> \<not> using_real_sensor (fst (SensorManager_init w n)))
   \<and> (fst (read_raw_data w sm n) = None \<longrightarrow>
        returns_invalid_sample (fst (read_attitude w sm n))
        \<and> \<not> using_real_sensor (fst (snd (read_attitude w sm n))))
   \<and> (\<not> using_real_sensor sm \<longrightarrow>
        list_all returns_invalid_sample (fst (read_attitude_seq w sm ns))
        \<and> snd (read_attitude_seq w sm ns) = sm)"
  using read_attitude_returns [of w sm n] init_after_failed_probe [of w n]
    read_attitude_after_failed_read [of w sm n] read_attitude_seq_simulated [of sm w ns]
  by blast

theorem sensor_fallback_is_sticky_witness:
  "\<not> available (fst (MPU6050_init (pulse_world 3 900 1010) 0))
   \<and> \<not> using_real_sensor (fst (SensorManager_init (pulse_world 3 900 1010) 0))
   \<and> using_real_sensor real_sensor_manager
   \<and> fst (read_raw_data (pulse_world 3 900 1010) real_sensor_manager 0) = None
   \<and> returns_invalid_sample (fst (read_attitude (pulse_world 3 900 1010) real_sensor_manager 0))
   \<and> \<not> using_real_sensor (fst (snd (read_attitude (pulse_world 3 900 1010) real_sensor_manager 0)))
   \<and> list_all returns_invalid_sample
        (fst (read_attitude_seq (pulse_world 3 900 1010)
               (fst (snd (read_attitude (pulse_world 3 900 1010) real_sensor_manager 0))) [2, 9, 40]))
   \<and> length (fst (read_attitude_seq (pulse_world 3 900 1010)
               (fst (snd (read_attitude (pulse_world 3 900 1010) real_sensor_manager 0))) [2, 9, 40])) = 3"
proof -
  let ?w = "pulse_world 3 900 1010"
  let ?sm = "fst (snd (read_attitude ?w real_sensor_manager 0))"
  have a: "\<not> available (fst (MPU6050_init ?w 0))"
    by (simp add: MPU6050_init_def pulse_world_def)
  have b: "fst (read_raw_data ?w real_sensor_manager 0) = None"
    by (simp add: read_raw_data_def real_sensor_manager_def MPU6050_read_raw_data_def pulse_world_def)
  have c: "using_real_sensor real_sensor_manager" by (simp add: real_sensor_manager_def)
  from sensor_fallback_is_sticky [of ?w real_sensor_manager 0 "[]"] a b
  have d: "\<not> using_real_sensor (fst (SensorManager_init ?w 0))"
    "returns_invalid_sample (fst (read_attitude ?w real_sensor_manager 0))"
    "\<not> using_real_sensor ?sm"
    by blast+
  from sensor_fallback_is_sticky [of ?w ?sm 0 "[2, 9, 40]"] d(3)
  have e: "list_all returns_invalid_sample (fst (read_attitude_seq ?w ?sm [2, 9, 40]))" by blast
  have f: "length (fst (read_attitude_seq ?w ?sm [2, 9, 40])) = 3"
    by (simp add: split_def Let_def)
  from a b c d e f show ?thesis by blast
qed

section \<open>Properties of the main loop\<close>










end
